theory Spec2Isabelle
  imports Main "HOL-Library.Sublist"
begin

section \<open>Plan approval: \<^verbatim>\<open>packages/core/src/tools/exit-plan-mode.ts\<close>\<close>

subsection \<open>Data model\<close>

text \<open>
  Modelled from the spec: the enum \<^verbatim>\<open>ApprovalMode\<close> of \<^verbatim>\<open>policy/types.ts\<close>, which is not
  among the sources. The spec gives \<^verbatim>\<open>DEFAULT | AUTO_EDIT\<close> and calls the enum extensible;
  \<open>OTHER_MODE\<close> stands for every further member.
\<close>

datatype ApprovalMode = DEFAULT | AUTO_EDIT | OTHER_MODE string

text \<open>
  Modelled from the spec: the enum \<^verbatim>\<open>ToolConfirmationOutcome\<close> of \<^verbatim>\<open>tools.ts\<close>
  (\<^verbatim>\<open>ProceedOnce | ProceedAlways | Cancel\<close>).
\<close>

datatype ToolConfirmationOutcome = ProceedOnce | ProceedAlways | Cancel

text \<open>
  Modelled from the spec: the \<^verbatim>\<open>plan_approval\<close> payload
  \<^verbatim>\<open>{approved: bool, approvalMode?, feedback?}\<close>; an optional field is an \<open>option\<close>.
\<close>

record PlanApprovalConfirmationPayload =
  approved :: bool
  approvalMode :: "ApprovalMode option"
  feedback :: "string option"

text \<open>
  \<^verbatim>\<open>ToolConfirmationPayload\<close> is a union discriminated by its \<^verbatim>\<open>type\<close> field; only the
  \<^verbatim>\<open>'plan_approval'\<close> member is inspected by the tool, every other member carries its tag.
\<close>

datatype ToolConfirmationPayload =
  PlanApproval PlanApprovalConfirmationPayload
| OtherPayload string

record ToolResult =
  llmContent :: string
  returnDisplay :: string

text \<open>
  The part of \<^verbatim>\<open>Config\<close> the tool touches: \<^verbatim>\<open>getTargetDir()\<close>,
  \<^verbatim>\<open>storage.getProjectTempPlansDir()\<close> and the approval mode. \<open>setApprovalModeCalls\<close> logs
  every call of \<^verbatim>\<open>setApprovalMode\<close>, oldest first.
\<close>

record Config =
  targetDir :: string
  projectTempPlansDir :: string
  currentApprovalMode :: ApprovalMode
  setApprovalModeCalls :: "ApprovalMode list"

text \<open>
  Modelled from the spec: \<^verbatim>\<open>Config.setApprovalMode\<close> (\<^verbatim>\<open>config/config.ts\<close> is not among the
  sources) switches the process-wide approval mode.
\<close>

definition setApprovalMode :: "ApprovalMode \<Rightarrow> Config \<Rightarrow> Config" where
  "setApprovalMode m cfg =
     cfg\<lparr>currentApprovalMode := m, setApprovalModeCalls := setApprovalModeCalls cfg @ [m]\<rparr>"

text \<open>
  The two path functions the tool calls are not among the sources: \<^verbatim>\<open>path.resolve\<close> belongs
  to the runtime and \<^verbatim>\<open>isWithinRoot\<close> to \<^verbatim>\<open>utils/fileUtils.ts\<close>. Both are parameters.
\<close>

record PathOps =
  path_resolve :: "string \<Rightarrow> string \<Rightarrow> string"
  isWithinRoot :: "string \<Rightarrow> string \<Rightarrow> bool"

text \<open>The fields of an \<^verbatim>\<open>ExitPlanModeInvocation\<close>; \<open>None\<close> is \<^verbatim>\<open>null\<close>.\<close>

record ExitPlanModeInvocation =
  plan_path :: string
  confirmationOutcome :: "ToolConfirmationOutcome option"
  approvalPayload :: "PlanApprovalConfirmationPayload option"

definition build :: "string \<Rightarrow> ExitPlanModeInvocation" where
  "build p = \<lparr>plan_path = p, confirmationOutcome = None, approvalPayload = None\<rparr>"

subsection \<open>Operations\<close>

fun getApprovalModeDescription :: "ApprovalMode \<Rightarrow> string" where
  "getApprovalModeDescription AUTO_EDIT = ''Auto-Edit mode (edits will be applied automatically)''"
| "getApprovalModeDescription DEFAULT = ''Default mode (edits will require confirmation)''"
| "getApprovalModeDescription (OTHER_MODE m) = ''Default mode (edits will require confirmation)''"

definition getValidatedPlanPath :: "PathOps \<Rightarrow> Config \<Rightarrow> ExitPlanModeInvocation \<Rightarrow> string option" where
  "getValidatedPlanPath ops cfg self =
     (let plansDir = projectTempPlansDir cfg;
          resolvedPath = path_resolve ops (targetDir cfg) (plan_path self)
      in if isWithinRoot ops resolvedPath plansDir then Some resolvedPath else None)"

text \<open>
  JavaScript truthiness of a \<^verbatim>\<open>string | null\<close> (and of an optional string): \<^verbatim>\<open>null\<close>,
  \<^verbatim>\<open>undefined\<close> and the empty string are falsy.
\<close>

fun truthy_string :: "string option \<Rightarrow> bool" where
  "truthy_string None = False"
| "truthy_string (Some s) = (s \<noteq> [])"

text \<open>
  \<^verbatim>\<open>shouldConfirmExecute\<close> returns \<^verbatim>\<open>false\<close> (\<open>None\<close>) or the confirmation details. The
  \<^verbatim>\<open>onConfirm\<close> closure of the details is the function \<open>onConfirm\<close> below.
\<close>

record ToolPlanApprovalConfirmationDetails =
  details_type :: string
  title :: string
  planPath :: string

definition shouldConfirmExecute ::
  "PathOps \<Rightarrow> Config \<Rightarrow> ExitPlanModeInvocation \<Rightarrow> ToolPlanApprovalConfirmationDetails option" where
  "shouldConfirmExecute ops cfg self =
     (let resolvedPlanPath = getValidatedPlanPath ops cfg self
      in if \<not> truthy_string resolvedPlanPath then None
         else Some \<lparr>details_type = ''plan_approval'', title = ''Plan Approval'',
                    planPath = the resolvedPlanPath\<rparr>)"

fun onConfirm ::
  "ToolConfirmationOutcome \<Rightarrow> ToolConfirmationPayload option \<Rightarrow> ExitPlanModeInvocation
     \<Rightarrow> ExitPlanModeInvocation" where
  "onConfirm outcome (Some (PlanApproval payload)) self =
     self\<lparr>confirmationOutcome := Some outcome, approvalPayload := Some payload\<rparr>"
| "onConfirm outcome _ self = self\<lparr>confirmationOutcome := Some outcome\<rparr>"

definition sandbox_error_result :: ToolResult where
  "sandbox_error_result =
     \<lparr>llmContent = ''Error: Plan path is outside the designated plans directory.'',
      returnDisplay = ''Error: Plan path is outside the designated plans directory.''\<rparr>"

definition cancelled_result :: ToolResult where
  "cancelled_result =
     \<lparr>llmContent = ''User cancelled the plan approval dialog. The plan was not approved and you are still in Plan Mode.'',
      returnDisplay = ''Cancelled''\<rparr>"

definition approved_result :: "string \<Rightarrow> string \<Rightarrow> ToolResult" where
  "approved_result description resolvedPlanPath =
     \<lparr>llmContent = ''Plan approved. Switching to '' @ description @ ''.\<newline>\<newline>''
         @ ''The approved implementation plan is stored at: '' @ resolvedPlanPath @ ''\<newline>''
         @ ''Read and follow the plan strictly during implementation.'',
      returnDisplay = ''Plan approved: '' @ resolvedPlanPath\<rparr>"

definition rejected_result :: "string \<Rightarrow> string \<Rightarrow> ToolResult" where
  "rejected_result fb resolvedPlanPath =
     \<lparr>llmContent = ''Plan rejected. Feedback: '' @ fb @ ''\<newline>\<newline>''
         @ ''The plan is stored at: '' @ resolvedPlanPath @ ''\<newline>''
         @ ''Revise the plan based on the feedback.'',
      returnDisplay = ''Feedback: '' @ fb\<rparr>"

text \<open>\<^verbatim>\<open>payload?.feedback || 'None'\<close>: an absent and an empty feedback both give \<^verbatim>\<open>'None'\<close>.\<close>

definition feedback_or_None :: "PlanApprovalConfirmationPayload option \<Rightarrow> string" where
  "feedback_or_None payload =
     (let fb = (case payload of None \<Rightarrow> None | Some p \<Rightarrow> feedback p)
      in if truthy_string fb then the fb else ''None'')"

text \<open>
  \<^verbatim>\<open>execute\<close> returns the tool result and the configuration it leaves behind. The order of
  the checks is the source's: path validation, the \<^verbatim>\<open>Cancel\<close> outcome, the payload.
\<close>

definition execute :: "PathOps \<Rightarrow> Config \<Rightarrow> ExitPlanModeInvocation \<Rightarrow> ToolResult \<times> Config" where
  "execute ops cfg self =
     (let resolvedPlanPath = getValidatedPlanPath ops cfg self
      in if \<not> truthy_string resolvedPlanPath then (sandbox_error_result, cfg)
         else if confirmationOutcome self = Some Cancel then (cancelled_result, cfg)
         else
           (let payload = approvalPayload self
            in if (case payload of None \<Rightarrow> False | Some p \<Rightarrow> approved p) then
                 (let newMode = (case approvalMode (the payload) of None \<Rightarrow> DEFAULT | Some m \<Rightarrow> m);
                      cfg' = setApprovalMode newMode cfg;
                      description = getApprovalModeDescription newMode
                  in (approved_result description (the resolvedPlanPath), cfg'))
               else
                 (let fb = feedback_or_None payload
                  in (rejected_result fb (the resolvedPlanPath), cfg))))"

text \<open>
  A sample of the two path parameters for concrete runs: joining a relative path onto the
  directory, and containment as equality or a prefix ending in the separator.
\<close>

definition sample_ops :: PathOps where
  "sample_ops =
     \<lparr>path_resolve = (\<lambda>dir p. if take 1 p = ''/'' then p else dir @ ''/'' @ p),
      isWithinRoot = (\<lambda>candidate root. candidate = root \<or> prefix (root @ ''/'') candidate)\<rparr>"

definition mock_config :: Config where
  "mock_config =
     \<lparr>targetDir = ''/mock/dir'', projectTempPlansDir = ''/mock/dir/plans'',
      currentApprovalMode = OTHER_MODE ''plan'', setApprovalModeCalls = []\<rparr>"


definition valid_plan_path :: "PathOps \<Rightarrow> Config \<Rightarrow> string \<Rightarrow> bool" where
  "valid_plan_path ops cfg p =
     (isWithinRoot ops (path_resolve ops (targetDir cfg) p) (projectTempPlansDir cfg)
      \<and> path_resolve ops (targetDir cfg) p \<noteq> [])"

section \<open>Browser agent: \<^verbatim>\<open>packages/core/src/agents/browser/browserAgent.ts\<close>\<close>

subsection \<open>Values, parts and turns\<close>

text \<open>
  Untyped JavaScript values as they travel through the agent: arguments of a function call
  and results of a tool. The agent never computes with numbers, so integers stand for them.
\<close>

datatype jsval =
  JUndefined | JNull | JBool bool | JNum int | JStr string
| JArr "jsval list" | JObj "(string \<times> jsval) list"

type_synonym jsobject = "(string \<times> jsval) list"

fun truthy :: "jsval \<Rightarrow> bool" where
  "truthy JUndefined = False"
| "truthy JNull = False"
| "truthy (JBool b) = b"
| "truthy (JNum n) = (n \<noteq> 0)"
| "truthy (JStr s) = (s \<noteq> [])"
| "truthy (JArr xs) = True"
| "truthy (JObj kvs) = True"

definition get_prop :: "jsobject \<Rightarrow> string \<Rightarrow> jsval" where
  "get_prop obj k = (case map_of obj k of None \<Rightarrow> JUndefined | Some v \<Rightarrow> v)"

definition set_prop :: "jsobject \<Rightarrow> string \<Rightarrow> jsval \<Rightarrow> jsobject" where
  "set_prop obj k v =
     (if k \<in> fst ` set obj then map (\<lambda>(k', v'). if k' = k then (k', v) else (k', v')) obj
      else obj @ [(k, v)])"

text \<open>
  The arguments of a function call under the type the agent casts them to:
  \<^verbatim>\<open>{ safety_decision?: { decision: string; explanation: string }; [key: string]: unknown }\<close>.
  \<open>entries\<close> holds the remaining keys. A function call is taken to carry its name; its
  arguments may be \<^verbatim>\<open>undefined\<close> (\<open>None\<close>).
\<close>

record SafetyDecision =
  decision :: string
  explanation :: string

record FunctionCallArgs =
  safety_decision :: "SafetyDecision option"
  entries :: jsobject

record FunctionCall =
  name :: string
  args :: "FunctionCallArgs option"

datatype Part =
  Text string
| InlineData string string
| FunctionCallPart FunctionCall
| FunctionResponsePart string jsobject "Part list"

record Content =
  role :: string
  parts :: "Part list option"

datatype Prompt = PromptText string | PromptParts "Part list"

subsection \<open>The environment and the effects of the agent\<close>

text \<open>
  A thrown value: an \<^verbatim>\<open>Error\<close> with its message, or any other value with its
  \<^verbatim>\<open>String(e)\<close> rendering.
\<close>

datatype exn = Error string | Thrown string

fun message_of :: "exn \<Rightarrow> string" where
  "message_of (Error m) = m"
| "message_of (Thrown s) = s"

text \<open>The calls into \<^verbatim>\<open>browserTools\<close> that the \<^verbatim>\<open>switch\<close> of the agent can make.\<close>

datatype ToolInvocation =
  Navigate jsval
| ClickAt jsval jsval
| TypeTextAt jsval jsval jsval jsval jsval
| ScrollDocument jsval jsval
| DragAndDrop jsval jsval jsval jsval
| Pagedown
| Pageup
| KeyCombination jsval
| OpenWebBrowser

text \<open>
  The collaborators of the agent act on a world \<open>'w\<close> (browser, page, model service) that
  the agent only reaches through them. Each is a parameter: it maps the world to an outcome
  (\<open>Inl\<close> a thrown value) and the world it leaves. \<^verbatim>\<open>browserTools\<close>, the model client and
  the Playwright page are not among the sources.
  \<^item> \<open>screenshot\<close> is \<^verbatim>\<open>(await page.screenshot()).toString('base64')\<close>;
  \<^item> \<open>snapshot\<close> is \<^verbatim>\<open>page.accessibility.snapshot()\<close>: \<open>None\<close> for a falsy snapshot,
    otherwise its \<^verbatim>\<open>JSON.stringify(snapshot, null, 2)\<close>;
  \<^item> \<open>generateContent\<close> is \<^verbatim>\<open>result.candidates?.[0]?.content\<close> of the model's result;
  \<^item> \<open>runTool\<close> is the called tool of \<^verbatim>\<open>browserTools\<close>, taken to return an object.
\<close>

record 'w Env =
  getPage :: "'w \<Rightarrow> (exn + unit) \<times> 'w"
  screenshot :: "'w \<Rightarrow> (exn + string) \<times> 'w"
  snapshot :: "'w \<Rightarrow> (exn + string option) \<times> 'w"
  page_url :: "'w \<Rightarrow> (exn + string) \<times> 'w"
  removeOverlay :: "'w \<Rightarrow> (exn + unit) \<times> 'w"
  updateBorderOverlay :: "bool \<Rightarrow> bool \<Rightarrow> 'w \<Rightarrow> (exn + unit) \<times> 'w"
  runTool :: "ToolInvocation \<Rightarrow> 'w \<Rightarrow> (exn + jsobject) \<times> 'w"
  generateContent :: "Content list \<Rightarrow> 'w \<Rightarrow> (exn + Content option) \<times> 'w"

text \<open>Every call the agent makes to a collaborator is recorded, oldest first.\<close>

datatype event =
  EvGetPage
| EvScreenshot
| EvSnapshot
| EvPageUrl
| EvRemoveOverlay
| EvUpdateBorderOverlay bool bool
| EvTool ToolInvocation
| EvGenerateContent "Content list"
| EvLog string
| EvLogFullTurn
| EvLogSummary

record 'w state =
  world :: 'w
  trace :: "event list"

type_synonym ('w, 'a) io = "'w state \<Rightarrow> (exn + 'a) \<times> 'w state"

definition returnE :: "'a \<Rightarrow> ('w, 'a) io" where
  "returnE x = (\<lambda>s. (Inr x, s))"

definition throwE :: "exn \<Rightarrow> ('w, 'a) io" where
  "throwE e = (\<lambda>s. (Inl e, s))"

definition bindE :: "('w, 'a) io \<Rightarrow> ('a \<Rightarrow> ('w, 'b) io) \<Rightarrow> ('w, 'b) io" where
  "bindE m f = (\<lambda>s. case m s of (Inl e, s') \<Rightarrow> (Inl e, s') | (Inr x, s') \<Rightarrow> f x s')"

text \<open>\<^verbatim>\<open>try { m } catch (e) { h e }\<close>\<close>

definition catchE :: "('w, 'a) io \<Rightarrow> (exn \<Rightarrow> ('w, 'a) io) \<Rightarrow> ('w, 'a) io" where
  "catchE m h = (\<lambda>s. case m s of (Inl e, s') \<Rightarrow> h e s' | (Inr x, s') \<Rightarrow> (Inr x, s'))"

text \<open>\<^verbatim>\<open>try { m } finally { fin }\<close>: a throw of the \<^verbatim>\<open>finally\<close> block replaces the outcome.\<close>

definition finallyE :: "('w, 'a) io \<Rightarrow> ('w, unit) io \<Rightarrow> ('w, 'a) io" where
  "finallyE m fin =
     (\<lambda>s. case m s of (r, s') \<Rightarrow>
        (case fin s' of (Inl e, s'') \<Rightarrow> (Inl e, s'') | (Inr u, s'') \<Rightarrow> (r, s'')))"

definition extern :: "event \<Rightarrow> ('w \<Rightarrow> (exn + 'a) \<times> 'w) \<Rightarrow> ('w, 'a) io" where
  "extern ev operation =
     (\<lambda>s. case operation (world s) of (r, w') \<Rightarrow> (r, \<lparr>world = w', trace = trace s @ [ev]\<rparr>))"

definition emit :: "event \<Rightarrow> ('w, unit) io" where
  "emit ev = (\<lambda>s. (Inr (), s\<lparr>trace := trace s @ [ev]\<rparr>))"

subsection \<open>Capturing the page\<close>

text \<open>
  The \<^verbatim>\<open>try/catch/finally\<close> block that captures screenshot and accessibility tree, before
  the model call and after each tool. It yields \<^verbatim>\<open>(screenshotBase64, domSnapshot)\<close>; a
  throw inside \<^verbatim>\<open>try\<close> keeps what was assigned before it.
\<close>

definition captureState :: "'w Env \<Rightarrow> ('w, string \<times> string) io" where
  "captureState env =
     finallyE
       (catchE
          (bindE (extern EvRemoveOverlay (removeOverlay env)) (\<lambda>_.
           bindE (extern (EvUpdateBorderOverlay True True) (updateBorderOverlay env True True)) (\<lambda>_.
           bindE (extern EvGetPage (getPage env)) (\<lambda>_.
           bindE (extern EvScreenshot (screenshot env)) (\<lambda>screenshotBase64.
           catchE
             (bindE (extern EvSnapshot (snapshot env)) (\<lambda>snap.
              returnE (screenshotBase64,
                       case snap of None \<Rightarrow> [] | Some json \<Rightarrow> take 1000000 json)))
             (\<lambda>_. returnE (screenshotBase64, [])))))))
          (\<lambda>_. returnE ([], [])))
       (extern (EvUpdateBorderOverlay True False) (updateBorderOverlay env True False))"

subsection \<open>Executing one function call\<close>

text \<open>
  Reading the arguments of a tool, \<^verbatim>\<open>call.args!['key']\<close>: with \<^verbatim>\<open>call.args\<close> undefined
  the first read throws a \<^verbatim>\<open>TypeError\<close> (the message is the engine's), and a missing key
  reads as \<^verbatim>\<open>undefined\<close>.
\<close>

definition with_args ::
  "FunctionCall \<Rightarrow> string \<Rightarrow> (jsobject \<Rightarrow> ToolInvocation) \<Rightarrow> exn + ToolInvocation" where
  "with_args c first_key make_call =
     (case args c of
        None \<Rightarrow> Inl (Error (''Cannot read properties of undefined (reading '' @ [CHR 0x27]
                             @ first_key @ [CHR 0x27] @ '')''))
      | Some a \<Rightarrow> Inr (make_call (entries a)))"

text \<open>
  The \<^verbatim>\<open>switch (call.name)\<close>: \<open>None\<close> is the \<^verbatim>\<open>default\<close> case, \<open>Some (Inl e)\<close> a throw
  while the arguments are read, \<open>Some (Inr t)\<close> the tool to call.
\<close>

definition select_tool :: "FunctionCall \<Rightarrow> (exn + ToolInvocation) option" where
  "select_tool c =
     (if name c = ''navigate'' then
        Some (with_args c ''url'' (\<lambda>a. Navigate (get_prop a ''url'')))
      else if name c = ''click_at'' then
        Some (with_args c ''x'' (\<lambda>a. ClickAt (get_prop a ''x'') (get_prop a ''y'')))
      else if name c = ''type_text_at'' then
        Some (with_args c ''x'' (\<lambda>a.
          TypeTextAt (get_prop a ''x'') (get_prop a ''y'') (get_prop a ''text'')
            (get_prop a ''press_enter'') (get_prop a ''clear_before_typing'')))
      else if name c = ''scroll_document'' then
        Some (with_args c ''direction'' (\<lambda>a.
          ScrollDocument (get_prop a ''direction'') (get_prop a ''amount'')))
      else if name c = ''drag_and_drop'' then
        Some (with_args c ''x'' (\<lambda>a.
          DragAndDrop (get_prop a ''x'') (get_prop a ''y'') (get_prop a ''dest_x'')
            (get_prop a ''dest_y'')))
      else if name c = ''pagedown'' then Some (Inr Pagedown)
      else if name c = ''pageup'' then Some (Inr Pageup)
      else if name c = ''key_combination'' then
        Some (with_args c ''keys'' (\<lambda>a. KeyCombination (get_prop a ''keys'')))
      else if name c = ''open_web_browser'' then Some (Inr OpenWebBrowser)
      else None)"

text \<open>The \<^verbatim>\<open>try { switch ... } catch (e) { funcResult = { error: message } }\<close> block.\<close>

definition executeTool :: "'w Env \<Rightarrow> FunctionCall \<Rightarrow> ('w, jsobject) io" where
  "executeTool env c =
     catchE
       (case select_tool c of
          None \<Rightarrow> returnE [(''error'', JStr (''Unknown tool: '' @ name c))]
        | Some (Inl e) \<Rightarrow> throwE e
        | Some (Inr t) \<Rightarrow> extern (EvTool t) (runTool env t))
       (\<lambda>e. returnE [(''error'', JStr (message_of e))])"

text \<open>\<^verbatim>\<open>if (!funcResult.url) { try { ... page.url() } catch { 'about:blank' } }\<close>\<close>

definition ensureUrl :: "'w Env \<Rightarrow> jsobject \<Rightarrow> ('w, jsobject) io" where
  "ensureUrl env funcResult =
     (if \<not> truthy (get_prop funcResult ''url'') then
        catchE
          (bindE (extern EvGetPage (getPage env)) (\<lambda>_.
           bindE (extern EvPageUrl (page_url env)) (\<lambda>u.
           returnE (set_prop funcResult ''url'' (JStr u)))))
          (\<lambda>_. returnE (set_prop funcResult ''url'' (JStr ''about:blank'')))
      else returnE funcResult)"

definition responsePart :: "FunctionCall \<Rightarrow> jsobject \<Rightarrow> string \<Rightarrow> string \<Rightarrow> Part" where
  "responsePart c funcResult newScreenshot newDom =
     FunctionResponsePart (name c) funcResult
       ((if newScreenshot \<noteq> [] then [InlineData ''image/png'' newScreenshot] else [])
        @ (if newDom \<noteq> [] then [Text (''current_accessibility_tree:\<newline>'' @ newDom)] else []))"

text \<open>
  The safety check: \<^verbatim>\<open>args?.safety_decision?.decision === 'require_confirmation'\<close> gives
  the safety decision that asks for confirmation, if there is one.
\<close>

definition confirmation_required :: "FunctionCall \<Rightarrow> SafetyDecision option" where
  "confirmation_required c =
     (case args c of
        None \<Rightarrow> None
      | Some a \<Rightarrow>
          (case safety_decision a of
             None \<Rightarrow> None
           | Some d \<Rightarrow> if decision d = ''require_confirmation'' then Some d else None))"


definition safety_message :: "string \<Rightarrow> string \<Rightarrow> string" where
  "safety_message tool_name expl =
     ''Action Required: The model requested a safety confirmation for the action '' @ [CHR 0x22]
     @ tool_name @ [CHR 0x22] @ ''. Please confirm if you want to proceed with: '' @ expl"

text \<open>
  The \<^verbatim>\<open>for (const part of functionCalls)\<close> loop. It ends with the message of a safety
  halt (the \<^verbatim>\<open>return\<close> inside the loop) or with the collected function responses.
\<close>

datatype dispatch_result = SafetyHalt string | Responses "Part list"

fun executeTools ::
  "'w Env \<Rightarrow> FunctionCall list \<Rightarrow> Part list \<Rightarrow> ('w, dispatch_result) io" where
  "executeTools env [] functionResponses = returnE (Responses functionResponses)"
| "executeTools env (c # rest) functionResponses =
     (case confirmation_required c of
        Some d \<Rightarrow> returnE (SafetyHalt (safety_message (name c) (explanation d)))
      | None \<Rightarrow>
          bindE (executeTool env c) (\<lambda>funcResult0.
          bindE (ensureUrl env funcResult0) (\<lambda>funcResult.
          bindE (captureState env) (\<lambda>(newScreenshot, newDom).
          executeTools env rest
            (functionResponses @ [responsePart c funcResult newScreenshot newDom])))))"

subsection \<open>The agent loop\<close>

definition MAX_ITERATIONS :: nat where
  "MAX_ITERATIONS = 20"

definition systemInstruction :: string where
  "systemInstruction =
     ''You are an expert browser automation agent. Your goal is to fully complete the user''
     @ [CHR 0x27]
     @ ''s task. Do not stop until the task is completely finished. If you need to perform multiple steps, continue calling tools until the objective is met.\<newline>\<newline>Task: ''"

text \<open>Decimal rendering of a number inside a template string.\<close>

definition decimal_digit :: "nat \<Rightarrow> char" where
  "decimal_digit d = ''0123456789'' ! d"

fun string_of_nat :: "nat \<Rightarrow> string" where
  "string_of_nat n =
     (if 10 \<le> n then string_of_nat (n div 10) @ [decimal_digit (n mod 10)]
      else [decimal_digit n])"

definition exhaustion_message :: string where
  "exhaustion_message =
     ''The browser agent reached the maximum number of steps ('' @ string_of_nat MAX_ITERATIONS
     @ '') without completing the task. Please try refining your prompt or breaking the task into smaller steps.''"

text \<open>The user turn of an iteration: the pending prompt, then the visual grounding.\<close>

fun isFunctionResponse :: "Prompt \<Rightarrow> bool" where
  "isFunctionResponse (PromptParts (FunctionResponsePart n r ps # rest)) = True"
| "isFunctionResponse _ = False"

definition newContent :: "Prompt \<Rightarrow> string \<Rightarrow> string \<Rightarrow> Content" where
  "newContent currentPrompt screenshotBase64 domSnapshot =
     \<lparr>role = ''user'',
      parts = Some
        ((case currentPrompt of PromptText t \<Rightarrow> [Text t] | PromptParts ps \<Rightarrow> ps)
         @ (if \<not> isFunctionResponse currentPrompt then
              (if domSnapshot \<noteq> [] then [Text (''Current Accessibility Tree:\<newline>'' @ domSnapshot)]
               else [])
              @ (if screenshotBase64 \<noteq> [] then [InlineData ''image/png'' screenshotBase64]
                 else [])
            else []))\<rparr>"

text \<open>\<^verbatim>\<open>xs.join(sep)\<close> on strings.\<close>

fun join :: "string \<Rightarrow> string list \<Rightarrow> string" where
  "join sep [] = []"
| "join sep [x] = x"
| "join sep (x # y # ys) = x @ sep @ join sep (y # ys)"

text \<open>\<^verbatim>\<open>parts.filter((part) => part.text).map((part) => part.text).join('\n')\<close>\<close>

definition textParts :: "Part list \<Rightarrow> string" where
  "textParts ps = join ''\<newline>'' (concat (map (\<lambda>p. case p of Text t \<Rightarrow> (if t \<noteq> [] then [t] else []) | _ \<Rightarrow> []) ps))"

text \<open>\<^verbatim>\<open>parts.map((p) => p.text).join('')\<close>: a part without text joins as the empty string.\<close>

definition final_text :: "Part list \<Rightarrow> string" where
  "final_text ps = concat (map (\<lambda>p. case p of Text t \<Rightarrow> t | _ \<Rightarrow> []) ps)"

text \<open>\<^verbatim>\<open>parts.filter((p) => 'functionCall' in p)\<close>, each with its \<^verbatim>\<open>functionCall\<close>.\<close>

definition function_calls :: "Part list \<Rightarrow> FunctionCall list" where
  "function_calls ps = concat (map (\<lambda>p. case p of FunctionCallPart c \<Rightarrow> [c] | _ \<Rightarrow> []) ps)"

text \<open>\<^verbatim>\<open>response.parts || []\<close>\<close>

definition response_parts :: "Content \<Rightarrow> Part list" where
  "response_parts resp = (case parts resp of None \<Rightarrow> [] | Some ps \<Rightarrow> ps)"

text \<open>The statements after the \<^verbatim>\<open>for\<close> loop over the iterations.\<close>

definition afterLoop :: "'w Env \<Rightarrow> ('w, string) io" where
  "afterLoop env =
     bindE (extern EvRemoveOverlay (removeOverlay env)) (\<lambda>_.
     bindE (extern (EvUpdateBorderOverlay False False) (updateBorderOverlay env False False)) (\<lambda>_.
     returnE exhaustion_message))"

text \<open>
  The loop \<^verbatim>\<open>for (let i = 0; i < MAX_ITERATIONS; i++)\<close>, by recursion on the number of
  iterations left; \<open>has_log\<close> tells whether the \<^verbatim>\<open>log\<close> callback was passed. \<^verbatim>\<open>break\<close>
  and the end of the iterations both reach \<open>afterLoop\<close>.
\<close>

fun agentLoop ::
  "'w Env \<Rightarrow> bool \<Rightarrow> nat \<Rightarrow> Prompt \<Rightarrow> Content list \<Rightarrow> ('w, string) io" where
  "agentLoop env has_log 0 currentPrompt contents = afterLoop env"
| "agentLoop env has_log (Suc n) currentPrompt contents =
     bindE (captureState env) (\<lambda>(screenshotBase64, domSnapshot).
     let contents1 = contents @ [newContent currentPrompt screenshotBase64 domSnapshot] in
     bindE (extern (EvGenerateContent contents1) (generateContent env contents1)) (\<lambda>response.
     case response of
       None \<Rightarrow> afterLoop env
     | Some resp \<Rightarrow>
         bindE (emit EvLogFullTurn) (\<lambda>_.
         bindE (emit EvLogSummary) (\<lambda>_.
         let contents2 = contents1 @ [resp];
             ps = response_parts resp in
         bindE (if has_log \<and> textParts ps \<noteq> [] then emit (EvLog (textParts ps)) else returnE ()) (\<lambda>_.
         let functionCalls = function_calls ps in
         if functionCalls = [] then
           bindE (extern EvRemoveOverlay (removeOverlay env)) (\<lambda>_. returnE (final_text ps))
         else
           bindE (executeTools env functionCalls []) (\<lambda>r.
           case r of
             SafetyHalt msg \<Rightarrow> returnE msg
           | Responses functionResponses \<Rightarrow>
               agentLoop env has_log n (PromptParts functionResponses) contents2))))))"

text \<open>\<^verbatim>\<open>e instanceof Error && e.message.includes('Playwright is not installed')\<close>\<close>

fun playwright_missing :: "exn \<Rightarrow> bool" where
  "playwright_missing (Error m) = sublist ''Playwright is not installed'' m"
| "playwright_missing (Thrown v) = False"

text \<open>
  \<^verbatim>\<open>runTask(prompt, log?)\<close>: the browser check, the first border overlay, the loop. \<open>Inl\<close>
  is a rejected promise.
\<close>

definition runTask :: "'w Env \<Rightarrow> string \<Rightarrow> bool \<Rightarrow> ('w, string) io" where
  "runTask env prompt has_log =
     bindE
       (catchE
          (bindE (extern EvGetPage (getPage env)) (\<lambda>_. returnE None))
          (\<lambda>e. if playwright_missing e then returnE (Some (''Error: '' @ message_of e))
                else
                  bindE (if has_log
                         then emit (EvLog (''Warning: Failed to launch browser: '' @ message_of e))
                         else returnE ())
                    (\<lambda>_. returnE None)))
       (\<lambda>early. case early of
                  Some msg \<Rightarrow> returnE msg
                | None \<Rightarrow>
                    bindE (extern (EvUpdateBorderOverlay True False)
                             (updateBorderOverlay env True False)) (\<lambda>_.
                    agentLoop env has_log MAX_ITERATIONS (PromptText (systemInstruction @ prompt)) []))"

definition initial_state :: "'w \<Rightarrow> 'w state" where
  "initial_state w = \<lparr>world = w, trace = []\<rparr>"

subsection \<open>Reading the trace\<close>

definition tool_events :: "event list \<Rightarrow> ToolInvocation list" where
  "tool_events tr = concat (map (\<lambda>e. case e of EvTool t \<Rightarrow> [t] | _ \<Rightarrow> []) tr)"

definition model_calls :: "event list \<Rightarrow> nat" where
  "model_calls tr = length (filter (\<lambda>e. case e of EvGenerateContent c \<Rightarrow> True | _ \<Rightarrow> False) tr)"



text \<open>
  The border overlay after a trace: the \<^verbatim>\<open>active\<close> flag of the last
  \<^verbatim>\<open>updateBorderOverlay\<close> call, inactive before the first.
\<close>

definition border_active :: "event list \<Rightarrow> bool" where
  "border_active tr = foldl (\<lambda>b e. case e of EvUpdateBorderOverlay a c \<Rightarrow> a | _ \<Rightarrow> b) False tr"

text \<open>The overlay calls of a trace, in order.\<close>

definition overlay_events :: "event list \<Rightarrow> event list" where
  "overlay_events tr =
     filter (\<lambda>e. case e of EvRemoveOverlay \<Rightarrow> True | EvUpdateBorderOverlay a c \<Rightarrow> True | _ \<Rightarrow> False) tr"


subsection \<open>Assumptions on collaborators and judgements on computations\<close>



text \<open>\<open>appends P m\<close>: whatever its outcome, \<open>m\<close> extends the trace by events satisfying \<open>P\<close>.\<close>

definition appends :: "(event \<Rightarrow> bool) \<Rightarrow> ('w, 'a) io \<Rightarrow> bool" where
  "appends P m = (\<forall>s. \<exists>es. trace (snd (m s)) = trace s @ es \<and> list_all P es)"

text \<open>\<open>succeeds P m\<close>: moreover \<open>m\<close> does not throw.\<close>

definition succeeds :: "(event \<Rightarrow> bool) \<Rightarrow> ('w, 'a) io \<Rightarrow> bool" where
  "succeeds P m =
     (\<forall>s. \<exists>x s' es. m s = (Inr x, s') \<and> trace s' = trace s @ es \<and> list_all P es)"


subsection \<open>Sample environments\<close>

text \<open>
  A browser that always works and a model that replays a script: the world is the list of
  replies still to come, and an exhausted script gives no content.
\<close>

definition scripted_env :: "(Content option list) Env" where
  "scripted_env =
     \<lparr>getPage = (\<lambda>w. (Inr (), w)),
      screenshot = (\<lambda>w. (Inr ''iVBORw0KGgo='', w)),
      snapshot = (\<lambda>w. (Inr None, w)),
      page_url = (\<lambda>w. (Inr ''about:blank'', w)),
      removeOverlay = (\<lambda>w. (Inr (), w)),
      updateBorderOverlay = (\<lambda>a c w. (Inr (), w)),
      runTool = (\<lambda>t w. (Inr [(''url'', JStr ''https://example.com/'')], w)),
      generateContent = (\<lambda>contents w. case w of [] \<Rightarrow> (Inr None, []) | r # rs \<Rightarrow> (Inr r, rs))\<rparr>"



text \<open>
  A model turn with three function calls, the second of which asks for a safety
  confirmation.
\<close>

definition purchase_call :: FunctionCall where
  "purchase_call =
     \<lparr>name = ''click_at'',
      args = Some \<lparr>safety_decision =
                     Some \<lparr>decision = ''require_confirmation'',
                           explanation = ''Clicking this button completes a purchase.''\<rparr>,
                   entries = [(''x'', JNum 512), (''y'', JNum 300)]\<rparr>\<rparr>"




text \<open>A model turn whose only function call asks for a safety confirmation.\<close>

definition safety_only_turn :: Content where
  "safety_only_turn = \<lparr>role = ''model'', parts = Some [FunctionCallPart purchase_call]\<rparr>"

text \<open>A model turn without function calls: the final answer.\<close>

definition answer_turn :: Content where
  "answer_turn = \<lparr>role = ''model'', parts = Some [Text ''The page is open.'']\<rparr>"

section \<open>Properties of plan approval\<close>

lemma truthy_validated:
  "truthy_string (getValidatedPlanPath ops cfg self) =
     (isWithinRoot ops (path_resolve ops (targetDir cfg) (plan_path self)) (projectTempPlansDir cfg)
      \<and> path_resolve ops (targetDir cfg) (plan_path self) \<noteq> [])"
  by (simp add: getValidatedPlanPath_def Let_def)

lemma the_validated:
  "isWithinRoot ops (path_resolve ops (targetDir cfg) (plan_path self)) (projectTempPlansDir cfg)
   \<Longrightarrow> the (getValidatedPlanPath ops cfg self) = path_resolve ops (targetDir cfg) (plan_path self)"
  by (simp add: getValidatedPlanPath_def Let_def)

lemma plan_path_onConfirm [simp]: "plan_path (onConfirm outcome payload self) = plan_path self"
  by (cases "(outcome, payload, self)" rule: onConfirm.cases) simp_all

lemma outcome_onConfirm [simp]:
  "confirmationOutcome (onConfirm outcome payload self) = Some outcome"
  by (cases "(outcome, payload, self)" rule: onConfirm.cases) simp_all

lemma payload_onConfirm_plan [simp]:
  "approvalPayload (onConfirm outcome (Some (PlanApproval p)) self) = Some p"
  by simp

text \<open>
  C2. For every plan path, \<open>execute\<close> returns the sandbox-violation error exactly when the
  resolved path is not within the plans directory, whatever the confirmation fields of the
  invocation hold (so whether or not \<^verbatim>\<open>shouldConfirmExecute\<close> and its \<^verbatim>\<open>onConfirm\<close> ever
  ran); on an invalid path the configuration is left as it was, so \<^verbatim>\<open>setApprovalMode\<close> is
  not called. \<^verbatim>\<open>path.resolve\<close> yields an absolute, hence non-empty, path.
\<close>

theorem execute_sandbox_violation_iff:
  assumes "path_resolve ops (targetDir cfg) (plan_path self) \<noteq> []"
  shows "((fst (execute ops cfg self) = sandbox_error_result) =
           (\<not> isWithinRoot ops (path_resolve ops (targetDir cfg) (plan_path self))
                (projectTempPlansDir cfg)))
       \<and> ((fst (execute ops cfg (self\<lparr>confirmationOutcome := co, approvalPayload := ap\<rparr>))
             = sandbox_error_result) =
           (fst (execute ops cfg self) = sandbox_error_result))
       \<and> (\<not> isWithinRoot ops (path_resolve ops (targetDir cfg) (plan_path self))
                (projectTempPlansDir cfg)
            \<longrightarrow> execute ops cfg self = (sandbox_error_result, cfg))"
proof -
  have other: "fst (execute ops cfg s) \<noteq> sandbox_error_result"
    if "truthy_string (getValidatedPlanPath ops cfg s)" for s
    using that
    by (simp add: execute_def Let_def sandbox_error_result_def cancelled_result_def
        approved_result_def rejected_result_def)
  have err: "execute ops cfg s = (sandbox_error_result, cfg)"
    if "\<not> truthy_string (getValidatedPlanPath ops cfg s)" for s
    using that by (simp add: execute_def Let_def)
  have iff: "(fst (execute ops cfg s) = sandbox_error_result) =
      (\<not> truthy_string (getValidatedPlanPath ops cfg s))" for s
    using other [of s] err [of s] by (cases "truthy_string (getValidatedPlanPath ops cfg s)") simp_all
  show ?thesis
    using assms iff [of self] iff [of "self\<lparr>confirmationOutcome := co, approvalPayload := ap\<rparr>"]
      err [of self]
    by (simp add: truthy_validated)
qed

theorem execute_sandbox_violation_iff_witness:
  "path_resolve sample_ops (targetDir mock_config) (plan_path (build ''../../../etc/passwd'')) \<noteq> []
   \<and> \<not> isWithinRoot sample_ops
         (path_resolve sample_ops (targetDir mock_config) (plan_path (build ''../../../etc/passwd'')))
         (projectTempPlansDir mock_config)
   \<and> execute sample_ops mock_config (build ''../../../etc/passwd'') = (sandbox_error_result, mock_config)
   \<and> fst (execute sample_ops mock_config
        (onConfirm ProceedOnce (Some (PlanApproval \<lparr>approved = True, approvalMode = None, feedback = None\<rparr>))
           (build ''../../../etc/passwd''))) = sandbox_error_result"
  using execute_sandbox_violation_iff [where ops = sample_ops and cfg = mock_config
      and self = "build ''../../../etc/passwd''" and co = "Some ProceedOnce"
      and ap = "Some \<lparr>approved = True, approvalMode = None, feedback = None\<rparr>"]
  by (simp add: sample_ops_def mock_config_def build_def)

lemma execute_valid:
  assumes "valid_plan_path ops cfg (plan_path self)"
  shows "execute ops cfg self =
     (let r = path_resolve ops (targetDir cfg) (plan_path self)
      in if confirmationOutcome self = Some Cancel then (cancelled_result, cfg)
         else (case approvalPayload self of
                 None \<Rightarrow> (rejected_result ''None'' r, cfg)
               | Some p \<Rightarrow>
                   if approved p then
                     (approved_result
                        (getApprovalModeDescription (case approvalMode p of None \<Rightarrow> DEFAULT | Some m \<Rightarrow> m)) r,
                      setApprovalMode (case approvalMode p of None \<Rightarrow> DEFAULT | Some m \<Rightarrow> m) cfg)
                   else (rejected_result (feedback_or_None (Some p)) r, cfg)))"
  using assms
  by (simp add: execute_def Let_def truthy_validated the_validated valid_plan_path_def
      feedback_or_None_def split: option.splits)

text \<open>
  C5. For a valid plan path and a confirmation resolved (with an outcome other than
  \<^verbatim>\<open>Cancel\<close>) with a \<^verbatim>\<open>plan_approval\<close> payload that approves, \<open>execute\<close> calls
  \<^verbatim>\<open>setApprovalMode\<close> once with the payload's mode (\<open>DEFAULT\<close> when unset) and returns the
  approval text with the description of the mode, the resolved plan path and the direction
  to follow the plan; for the mode \<open>DEFAULT\<close> the text begins
  \<^verbatim>\<open>Plan approved. Switching to Default mode\<close>.
\<close>

theorem execute_approved_switches_mode:
  assumes "valid_plan_path ops cfg (plan_path self)"
    and "outcome \<noteq> Cancel"
  shows "execute ops cfg
           (onConfirm outcome (Some (PlanApproval \<lparr>approved = True, approvalMode = m, feedback = fb\<rparr>)) self)
         = (\<lparr>llmContent = ''Plan approved. Switching to ''
                @ getApprovalModeDescription (case m of None \<Rightarrow> DEFAULT | Some mode \<Rightarrow> mode)
                @ ''.\<newline>\<newline>The approved implementation plan is stored at: ''
                @ path_resolve ops (targetDir cfg) (plan_path self)
                @ ''\<newline>Read and follow the plan strictly during implementation.'',
             returnDisplay = ''Plan approved: '' @ path_resolve ops (targetDir cfg) (plan_path self)\<rparr>,
            cfg\<lparr>currentApprovalMode := (case m of None \<Rightarrow> DEFAULT | Some mode \<Rightarrow> mode),
                setApprovalModeCalls := setApprovalModeCalls cfg
                  @ [case m of None \<Rightarrow> DEFAULT | Some mode \<Rightarrow> mode]\<rparr>)
       \<and> (m = None \<or> m = Some DEFAULT \<longrightarrow>
            prefix ''Plan approved. Switching to Default mode''
              (llmContent (fst (execute ops cfg
                 (onConfirm outcome
                    (Some (PlanApproval \<lparr>approved = True, approvalMode = m, feedback = fb\<rparr>)) self)))))"
  using assms
  by (auto simp add: execute_valid Let_def approved_result_def setApprovalMode_def)

lemma valid_sample [simp]: "valid_plan_path sample_ops mock_config ''plans/test-plan.md''"
  by (simp add: valid_plan_path_def sample_ops_def mock_config_def)

theorem execute_approved_switches_mode_witness:
  "valid_plan_path sample_ops mock_config (plan_path (build ''plans/test-plan.md''))
   \<and> ProceedOnce \<noteq> Cancel
   \<and> execute sample_ops mock_config
        (onConfirm ProceedOnce
           (Some (PlanApproval \<lparr>approved = True, approvalMode = Some DEFAULT, feedback = None\<rparr>))
           (build ''plans/test-plan.md''))
      = (\<lparr>llmContent = ''Plan approved. Switching to Default mode (edits will require confirmation).\<newline>\<newline>The approved implementation plan is stored at: /mock/dir/plans/test-plan.md\<newline>Read and follow the plan strictly during implementation.'',
          returnDisplay = ''Plan approved: /mock/dir/plans/test-plan.md''\<rparr>,
         mock_config\<lparr>currentApprovalMode := DEFAULT, setApprovalModeCalls := [DEFAULT]\<rparr>)"
  using execute_approved_switches_mode [where ops = sample_ops and cfg = mock_config
      and self = "build ''plans/test-plan.md''" and outcome = ProceedOnce
      and m = "Some DEFAULT" and fb = None]
  by (simp add: build_def) (simp add: sample_ops_def mock_config_def)

text \<open>
  C6. For a valid plan path and a confirmation resolved (with an outcome other than
  \<^verbatim>\<open>Cancel\<close>) with a \<^verbatim>\<open>plan_approval\<close> payload that does not approve, \<open>execute\<close> returns
  \<^verbatim>\<open>Plan rejected. Feedback: \<close> followed by the feedback (\<^verbatim>\<open>None\<close> when there is none), the
  plan path and the instruction to revise the plan, and leaves the configuration as it was:
  \<^verbatim>\<open>setApprovalMode\<close> is not called.
\<close>

theorem execute_rejected_surfaces_feedback:
  assumes "valid_plan_path ops cfg (plan_path self)"
    and "outcome \<noteq> Cancel"
  shows "execute ops cfg
           (onConfirm outcome (Some (PlanApproval \<lparr>approved = False, approvalMode = m, feedback = fb\<rparr>)) self)
         = (\<lparr>llmContent = ''Plan rejected. Feedback: ''
                @ (case fb of None \<Rightarrow> ''None'' | Some f \<Rightarrow> if f = [] then ''None'' else f)
                @ ''\<newline>\<newline>The plan is stored at: ''
                @ path_resolve ops (targetDir cfg) (plan_path self)
                @ ''\<newline>Revise the plan based on the feedback.'',
             returnDisplay = ''Feedback: ''
                @ (case fb of None \<Rightarrow> ''None'' | Some f \<Rightarrow> if f = [] then ''None'' else f)\<rparr>,
            cfg)"
  using assms
  by (auto simp add: execute_valid Let_def rejected_result_def feedback_or_None_def
      split: option.splits)

theorem execute_rejected_surfaces_feedback_witness:
  "valid_plan_path sample_ops mock_config (plan_path (build ''plans/test-plan.md''))
   \<and> ProceedOnce \<noteq> Cancel
   \<and> execute sample_ops mock_config
        (onConfirm ProceedOnce
           (Some (PlanApproval \<lparr>approved = False, approvalMode = None,
                                  feedback = Some ''Please add more details.''\<rparr>))
           (build ''plans/test-plan.md''))
      = (\<lparr>llmContent = ''Plan rejected. Feedback: Please add more details.\<newline>\<newline>The plan is stored at: /mock/dir/plans/test-plan.md\<newline>Revise the plan based on the feedback.'',
          returnDisplay = ''Feedback: Please add more details.''\<rparr>,
         mock_config)"
  using execute_rejected_surfaces_feedback [where ops = sample_ops and cfg = mock_config
      and self = "build ''plans/test-plan.md''" and outcome = ProceedOnce
      and m = None and fb = "Some ''Please add more details.''"]
  by (simp add: build_def) (simp add: sample_ops_def mock_config_def)

text \<open>
  C7. For a valid plan path and a confirmation resolved with \<^verbatim>\<open>Cancel\<close>, \<open>execute\<close>
  returns the fixed cancellation message whatever payload came with the outcome, and leaves
  the configuration as it was. In every state of the invocation, \<open>execute\<close> changes the
  configuration only when the outcome is not \<^verbatim>\<open>Cancel\<close> and the stored payload approves.
\<close>

theorem execute_cancel_fixed_message:
  assumes "valid_plan_path ops cfg (plan_path self)"
  shows "execute ops cfg (onConfirm Cancel payload self)
         = (\<lparr>llmContent = ''User cancelled the plan approval dialog. The plan was not approved and you are still in Plan Mode.'',
             returnDisplay = ''Cancelled''\<rparr>, cfg)
       \<and> (\<forall>s. snd (execute ops cfg s) \<noteq> cfg \<longrightarrow>
             confirmationOutcome s \<noteq> Some Cancel
             \<and> (\<exists>p. approvalPayload s = Some p \<and> approved p))"
proof -
  have a: "execute ops cfg (onConfirm Cancel payload self) = (cancelled_result, cfg)"
    using assms by (simp add: execute_valid)
  have b: "confirmationOutcome s \<noteq> Some Cancel \<and> (\<exists>p. approvalPayload s = Some p \<and> approved p)"
    if "snd (execute ops cfg s) \<noteq> cfg" for s
    using that by (auto simp add: execute_def Let_def split: if_splits option.splits)
  show ?thesis using a b by (simp add: cancelled_result_def)
qed

theorem execute_cancel_fixed_message_witness:
  "valid_plan_path sample_ops mock_config (plan_path (build ''plans/test-plan.md''))
   \<and> execute sample_ops mock_config
        (onConfirm Cancel
           (Some (PlanApproval \<lparr>approved = True, approvalMode = Some AUTO_EDIT, feedback = None\<rparr>))
           (build ''plans/test-plan.md''))
      = (\<lparr>llmContent = ''User cancelled the plan approval dialog. The plan was not approved and you are still in Plan Mode.'',
          returnDisplay = ''Cancelled''\<rparr>, mock_config)"
  using execute_cancel_fixed_message [where ops = sample_ops and cfg = mock_config
      and self = "build ''plans/test-plan.md''"
      and payload = "Some (PlanApproval \<lparr>approved = True, approvalMode = Some AUTO_EDIT, feedback = None\<rparr>)"]
  by (simp add: build_def)

text \<open>
  An invocation whose confirmation was never resolved: \<open>execute\<close> answers with the
  rejection text and the feedback \<^verbatim>\<open>None\<close>, which is not an error result.
\<close>

theorem execute_unresolved_counterexample:
  "execute sample_ops mock_config (build ''plans/test-plan.md'')
     = (\<lparr>llmContent = ''Plan rejected. Feedback: None\<newline>\<newline>The plan is stored at: /mock/dir/plans/test-plan.md\<newline>Revise the plan based on the feedback.'',
         returnDisplay = ''Feedback: None''\<rparr>, mock_config)
   \<and> fst (execute sample_ops mock_config (build ''plans/test-plan.md'')) \<noteq> sandbox_error_result
   \<and> \<not> prefix ''Error'' (llmContent (fst (execute sample_ops mock_config (build ''plans/test-plan.md''))))"
  by (simp add: execute_valid build_def rejected_result_def sandbox_error_result_def)
     (simp add: sample_ops_def mock_config_def)

text \<open>
  C9 (amended). For a valid plan path and an invocation whose confirmation was never
  resolved (\<open>confirmationOutcome\<close> and \<open>approvalPayload\<close> still \<^verbatim>\<open>null\<close>), \<open>execute\<close> performs
  no side effect: the configuration is unchanged (\<^verbatim>\<open>setApprovalMode\<close> is not called) and no
  approval text is produced. What it returns is the rejection text with the feedback
  \<^verbatim>\<open>None\<close>, not an error result.
\<close>

theorem execute_unresolved_no_side_effect:
  assumes "valid_plan_path ops cfg (plan_path self)"
    and "confirmationOutcome self = None" and "approvalPayload self = None"
  shows "execute ops cfg self
         = (\<lparr>llmContent = ''Plan rejected. Feedback: None\<newline>\<newline>The plan is stored at: ''
                @ path_resolve ops (targetDir cfg) (plan_path self)
                @ ''\<newline>Revise the plan based on the feedback.'',
             returnDisplay = ''Feedback: None''\<rparr>, cfg)
       \<and> \<not> prefix ''Plan approved'' (llmContent (fst (execute ops cfg self)))"
  using assms by (simp add: execute_valid rejected_result_def)

theorem execute_unresolved_no_side_effect_witness:
  "valid_plan_path sample_ops mock_config (plan_path (build ''plans/test-plan.md''))
   \<and> confirmationOutcome (build ''plans/test-plan.md'') = None
   \<and> approvalPayload (build ''plans/test-plan.md'') = None
   \<and> snd (execute sample_ops mock_config (build ''plans/test-plan.md'')) = mock_config
   \<and> returnDisplay (fst (execute sample_ops mock_config (build ''plans/test-plan.md''))) = ''Feedback: None''"
  using execute_unresolved_no_side_effect [where ops = sample_ops and cfg = mock_config
      and self = "build ''plans/test-plan.md''"]
  by (simp add: build_def)

text \<open>
  C10. For a valid plan path and a confirmation resolved (with an outcome other than
  \<^verbatim>\<open>Cancel\<close>) with \<^verbatim>\<open>approved = false\<close> and an empty feedback string, \<open>execute\<close> renders
  the feedback as \<^verbatim>\<open>None\<close> in \<open>llmContent\<close> and in \<open>returnDisplay\<close>, exactly as for an
  absent feedback.
\<close>

theorem execute_empty_feedback_is_None:
  assumes "valid_plan_path ops cfg (plan_path self)"
    and "outcome \<noteq> Cancel"
  shows "execute ops cfg
           (onConfirm outcome (Some (PlanApproval \<lparr>approved = False, approvalMode = m, feedback = Some []\<rparr>)) self)
         = (\<lparr>llmContent = ''Plan rejected. Feedback: None\<newline>\<newline>The plan is stored at: ''
                @ path_resolve ops (targetDir cfg) (plan_path self)
                @ ''\<newline>Revise the plan based on the feedback.'',
             returnDisplay = ''Feedback: None''\<rparr>, cfg)
       \<and> execute ops cfg
           (onConfirm outcome (Some (PlanApproval \<lparr>approved = False, approvalMode = m, feedback = Some []\<rparr>)) self)
         = execute ops cfg
           (onConfirm outcome (Some (PlanApproval \<lparr>approved = False, approvalMode = m, feedback = None\<rparr>)) self)"
  using assms
  by (simp add: execute_valid Let_def rejected_result_def feedback_or_None_def)

theorem execute_empty_feedback_is_None_witness:
  "valid_plan_path sample_ops mock_config (plan_path (build ''plans/test-plan.md''))
   \<and> ProceedOnce \<noteq> Cancel
   \<and> execute sample_ops mock_config
        (onConfirm ProceedOnce
           (Some (PlanApproval \<lparr>approved = False, approvalMode = None, feedback = Some ''''\<rparr>))
           (build ''plans/test-plan.md''))
      = (\<lparr>llmContent = ''Plan rejected. Feedback: None\<newline>\<newline>The plan is stored at: /mock/dir/plans/test-plan.md\<newline>Revise the plan based on the feedback.'',
          returnDisplay = ''Feedback: None''\<rparr>, mock_config)"
  using execute_empty_feedback_is_None [where ops = sample_ops and cfg = mock_config
      and self = "build ''plans/test-plan.md''" and outcome = ProceedOnce and m = None]
  by (simp add: build_def) (simp add: sample_ops_def mock_config_def)

section \<open>Properties of the browser agent\<close>

subsection \<open>Rules for the judgements\<close>

lemma succeeds_imp_appends: "succeeds P m \<Longrightarrow> appends P m"
  unfolding succeeds_def appends_def
proof
  fix s
  assume a: "\<forall>s. \<exists>x s' es. m s = (Inr x, s') \<and> trace s' = trace s @ es \<and> list_all P es"
  then obtain x s' es where "m s = (Inr x, s')" "trace s' = trace s @ es" "list_all P es" by blast
  then show "\<exists>es. trace (snd (m s)) = trace s @ es \<and> list_all P es" by auto
qed


lemma appends_throwE: "appends P (throwE e)"
  by (simp add: appends_def throwE_def)

lemma appends_emit: "P ev \<Longrightarrow> appends P (emit ev)"
  by (simp add: appends_def emit_def)





lemma succeeds_emit: "P ev \<Longrightarrow> succeeds P (emit ev)"
  by (simp add: succeeds_def emit_def)


lemma succeeds_bindE:
  assumes "succeeds P m" and "\<And>x. succeeds P (f x)"
  shows "succeeds P (bindE m f)"
  unfolding succeeds_def
proof
  fix s
  from assms(1) obtain x s1 es1 where m: "m s = (Inr x, s1)" "trace s1 = trace s @ es1" "list_all P es1"
    unfolding succeeds_def by blast
  from assms(2) [of x] obtain y s2 es2 where
    f: "f x s1 = (Inr y, s2)" "trace s2 = trace s1 @ es2" "list_all P es2"
    unfolding succeeds_def by blast
  from m f
  show "\<exists>x s' es. bindE m f s = (Inr x, s') \<and> trace s' = trace s @ es \<and> list_all P es"
    by (simp add: bindE_def)
qed



lemma succeeds_mono:
  assumes "succeeds P m" and "\<And>e. P e \<Longrightarrow> Q e"
  shows "succeeds Q m"
  unfolding succeeds_def
proof
  fix s
  from assms(1) obtain x s1 es1 where m: "m s = (Inr x, s1)" "trace s1 = trace s @ es1" "list_all P es1"
    unfolding succeeds_def by blast
  from m(3) assms(2) have "list_all Q es1" by (simp add: list_all_iff)
  with m show "\<exists>x s' es. m s = (Inr x, s') \<and> trace s' = trace s @ es \<and> list_all Q es" by blast
qed



subsection \<open>Tool execution\<close>

lemma tool_events_append [simp]: "tool_events (a @ b) = tool_events a @ tool_events b"
  by (simp add: tool_events_def)

lemma model_calls_append [simp]: "model_calls (a @ b) = model_calls a + model_calls b"
  by (simp add: model_calls_def)



lemma tool_events_map_EvTool [simp]: "tool_events (map EvTool ts) = ts"
  by (induction ts) (simp_all add: tool_events_def)

lemma model_calls_map_EvTool [simp]: "model_calls (map EvTool ts) = 0"
  by (induction ts) (simp_all add: model_calls_def)







subsection \<open>The loop\<close>

lemma string_of_nat_20: "string_of_nat 20 = ''20''"
  by code_simp

lemma exhaustion_message_text:
  "exhaustion_message = ''The browser agent reached the maximum number of steps (20) without completing the task. Please try refining your prompt or breaking the task into smaller steps.''"
  by (simp only: exhaustion_message_def MAX_ITERATIONS_def string_of_nat_20) simp



lemma bindE_Inl: "m s = (Inl e, s') \<Longrightarrow> bindE m f s = (Inl e, s')"
  by (simp add: bindE_def)





lemma model_calls_Cons:
  "model_calls (e # es) = (case e of EvGenerateContent c \<Rightarrow> 1 | _ \<Rightarrow> 0) + model_calls es"
  by (simp add: model_calls_def split: event.splits)

lemma model_calls_Nil: "model_calls [] = 0"
  by (simp add: model_calls_def)







subsection \<open>Runs against the scripted model\<close>


lemma scripted_capture:
  "captureState scripted_env s =
     (Inr (''iVBORw0KGgo='', []),
      \<lparr>world = world s,
       trace = trace s @ [EvRemoveOverlay, EvUpdateBorderOverlay True True, EvGetPage, EvScreenshot,
                          EvSnapshot, EvUpdateBorderOverlay True False]\<rparr>)"
  by (simp add: captureState_def finallyE_def catchE_def bindE_def extern_def returnE_def
      scripted_env_def)

lemma scripted_after:
  "afterLoop scripted_env s =
     (Inr exhaustion_message,
      \<lparr>world = world s, trace = trace s @ [EvRemoveOverlay, EvUpdateBorderOverlay False False]\<rparr>)"
  by (simp add: afterLoop_def bindE_def extern_def returnE_def scripted_env_def)

lemma bindE_apply:
  "bindE m f s = (case m s of (Inl e, s') \<Rightarrow> (Inl e, s') | (Inr x, s') \<Rightarrow> f x s')"
  by (simp add: bindE_def)

lemma returnE_apply: "returnE x s = (Inr x, s)"
  by (simp add: returnE_def)

lemma emit_apply: "emit ev s = (Inr (), s\<lparr>trace := trace s @ [ev]\<rparr>)"
  by (simp add: emit_def)

lemma scripted_remove:
  "extern EvRemoveOverlay (removeOverlay scripted_env) s =
     (Inr (), \<lparr>world = world s, trace = trace s @ [EvRemoveOverlay]\<rparr>)"
  by (simp add: extern_def scripted_env_def)

lemma scripted_generate:
  "extern (EvGenerateContent cs) (generateContent scripted_env cs) s =
     (case world s of
        [] \<Rightarrow> (Inr None, \<lparr>world = [], trace = trace s @ [EvGenerateContent cs]\<rparr>)
      | r # rs \<Rightarrow> (Inr r, \<lparr>world = rs, trace = trace s @ [EvGenerateContent cs]\<rparr>))"
  by (simp add: extern_def scripted_env_def split: list.splits)

lemma scripted_runTask:
  "runTask scripted_env prompt has_log s =
     agentLoop scripted_env has_log MAX_ITERATIONS (PromptText (systemInstruction @ prompt)) []
       \<lparr>world = world s, trace = trace s @ [EvGetPage, EvUpdateBorderOverlay True False]\<rparr>"
  by (simp add: runTask_def catchE_def bindE_def extern_def returnE_def scripted_env_def)

lemma scripted_no_content:
  assumes "0 < n"
  shows "agentLoop scripted_env has_log n currentPrompt contents \<lparr>world = None # rs, trace = tr\<rparr> =
     (Inr exhaustion_message,
      \<lparr>world = rs,
       trace = tr @ [EvRemoveOverlay, EvUpdateBorderOverlay True True, EvGetPage, EvScreenshot,
                     EvSnapshot, EvUpdateBorderOverlay True False,
                     EvGenerateContent (contents @ [newContent currentPrompt ''iVBORw0KGgo='' []]),
                     EvRemoveOverlay, EvUpdateBorderOverlay False False]\<rparr>)"
proof -
  from assms obtain m where "n = Suc m" by (cases n) auto
  then show ?thesis
    by (simp add: bindE_apply scripted_capture scripted_generate scripted_after Let_def)
qed

text \<open>
  C4. The model returns no content at the first request: \<open>runTask\<close> leaves the loop after
  one model call and returns the message of an exhausted run, not an empty result.
\<close>

theorem runTask_no_content_returns_exhaustion_message:
  "runTask scripted_env ''open the shop'' False (initial_state [None])
     = (Inr ''The browser agent reached the maximum number of steps (20) without completing the task. Please try refining your prompt or breaking the task into smaller steps.'',
        \<lparr>world = [],
         trace = [EvGetPage, EvUpdateBorderOverlay True False,
                  EvRemoveOverlay, EvUpdateBorderOverlay True True, EvGetPage, EvScreenshot,
                  EvSnapshot, EvUpdateBorderOverlay True False,
                  EvGenerateContent
                    [newContent (PromptText (systemInstruction @ ''open the shop'')) ''iVBORw0KGgo='' []],
                  EvRemoveOverlay, EvUpdateBorderOverlay False False]\<rparr>)
   \<and> model_calls (trace (snd (runTask scripted_env ''open the shop'' False (initial_state [None])))) = 1"
  by (simp add: scripted_runTask MAX_ITERATIONS_def initial_state_def scripted_no_content
      exhaustion_message_text model_calls_Cons model_calls_Nil)

lemma scripted_tools_halt_first:
  "executeTools scripted_env (purchase_call # rest) acc s =
     (Inr (SafetyHalt (safety_message ''click_at'' ''Clicking this button completes a purchase.'')), s)"
  by (simp add: confirmation_required_def purchase_call_def returnE_def)

lemma scripted_safety_only:
  assumes "0 < n"
  shows "agentLoop scripted_env False n currentPrompt contents
     \<lparr>world = Some safety_only_turn # rs, trace = tr\<rparr> =
     (Inr (safety_message ''click_at'' ''Clicking this button completes a purchase.''),
      \<lparr>world = rs,
       trace = tr @ [EvRemoveOverlay, EvUpdateBorderOverlay True True, EvGetPage, EvScreenshot,
                     EvSnapshot, EvUpdateBorderOverlay True False,
                     EvGenerateContent (contents @ [newContent currentPrompt ''iVBORw0KGgo='' []]),
                     EvLogFullTurn, EvLogSummary]\<rparr>)"
proof -
  from assms obtain m where "n = Suc m" by (cases n) auto
  moreover have "function_calls (response_parts safety_only_turn) = [purchase_call]"
    by (simp add: response_parts_def function_calls_def safety_only_turn_def)
  ultimately show ?thesis
    by (simp add: bindE_apply scripted_capture scripted_generate emit_apply returnE_apply
        Let_def scripted_tools_halt_first del: executeTools.simps)
qed

lemma scripted_answer:
  assumes "0 < n"
  shows "agentLoop scripted_env False n currentPrompt contents
     \<lparr>world = Some answer_turn # rs, trace = tr\<rparr> =
     (Inr ''The page is open.'',
      \<lparr>world = rs,
       trace = tr @ [EvRemoveOverlay, EvUpdateBorderOverlay True True, EvGetPage, EvScreenshot,
                     EvSnapshot, EvUpdateBorderOverlay True False,
                     EvGenerateContent (contents @ [newContent currentPrompt ''iVBORw0KGgo='' []]),
                     EvLogFullTurn, EvLogSummary, EvRemoveOverlay]\<rparr>)"
proof -
  from assms obtain m where "n = Suc m" by (cases n) auto
  moreover have "function_calls (response_parts answer_turn) = []"
    and "final_text (response_parts answer_turn) = ''The page is open.''"
    by (simp_all add: response_parts_def function_calls_def final_text_def answer_turn_def)
  ultimately show ?thesis
    by (simp add: bindE_apply scripted_capture scripted_generate emit_apply returnE_apply
        Let_def scripted_remove)
qed

text \<open>
  C3. Two runs that end without releasing the border overlay. A turn whose first function
  call asks for a safety confirmation: \<open>runTask\<close> returns the confirmation request, and the
  last overlay call left the border active. A turn without function calls: \<open>runTask\<close>
  removes the overlay and returns the answer, and the border is again left active. Only the
  statements after the loop deactivate the border.
\<close>

theorem runTask_halt_leaves_border_active:
  "fst (runTask scripted_env ''buy the book'' False (initial_state [Some safety_only_turn]))
     = Inr (''Action Required: The model requested a safety confirmation for the action ''
            @ [CHR 0x22] @ ''click_at'' @ [CHR 0x22]
            @ ''. Please confirm if you want to proceed with: Clicking this button completes a purchase.'')
   \<and> overlay_events (trace (snd (runTask scripted_env ''buy the book'' False
         (initial_state [Some safety_only_turn]))))
     = [EvUpdateBorderOverlay True False, EvRemoveOverlay, EvUpdateBorderOverlay True True,
        EvUpdateBorderOverlay True False]
   \<and> border_active (trace (snd (runTask scripted_env ''buy the book'' False
         (initial_state [Some safety_only_turn]))))
   \<and> fst (runTask scripted_env ''open the shop'' False (initial_state [Some answer_turn]))
     = Inr ''The page is open.''
   \<and> overlay_events (trace (snd (runTask scripted_env ''open the shop'' False
         (initial_state [Some answer_turn]))))
     = [EvUpdateBorderOverlay True False, EvRemoveOverlay, EvUpdateBorderOverlay True True,
        EvUpdateBorderOverlay True False, EvRemoveOverlay]
   \<and> border_active (trace (snd (runTask scripted_env ''open the shop'' False
         (initial_state [Some answer_turn]))))
   \<and> \<not> border_active (trace (snd (runTask scripted_env ''open the shop'' False (initial_state [None]))))"
  by (simp add: scripted_runTask MAX_ITERATIONS_def initial_state_def scripted_safety_only
      scripted_answer scripted_no_content safety_message_def overlay_events_def border_active_def)

subsection \<open>Safety confirmations\<close>







end
